theory Spec2Isabelle
  imports Main "HOL-Library.AList"
begin

section \<open>Python values and exceptions\<close>

text \<open>
  The module \<^verbatim>\<open>binwalk/core/module.py\<close> is dynamically typed Python. The values that
  flow through its dictionaries (option values, parsed arguments, constructor keywords,
  instance attributes) are modelled by one datatype. \<open>VFloat m e\<close> stands for the finite
  binary float \<open>m * 2 ^ e\<close>; \<open>VObj a\<close> is a reference to the object at address \<open>a\<close>.
\<close>

datatype pyval =
    VNone
  | VBool bool
  | VInt int
  | VFloat int int
  | VStr string
  | VList "pyval list"
  | VDict "(pyval \<times> pyval) list"
  | VObj nat

text \<open>
  Exceptions are values. \<open>KeyboardInterrupt\<close>, \<open>SystemExit\<close> and \<open>GeneratorExit\<close> derive
  from \<open>BaseException\<close> only; every other constructor stands for a class that derives from
  \<open>Exception\<close>, which is what the handlers \<^verbatim>\<open>except Exception as e\<close> of the module test.
  \<open>DependencyError\<close> is the class the module declares itself.
\<close>

datatype exn =
    KeyboardInterrupt
  | SystemExit
  | GeneratorExit
  | DependencyError string
  | AttributeError string
  | ValueError string
  | TypeError string
  | IndexError string
  | KeyError string
  | RuntimeError string
  | Exception string

fun is_Exception :: "exn \<Rightarrow> bool" where
  "is_Exception KeyboardInterrupt = False"
| "is_Exception SystemExit = False"
| "is_Exception GeneratorExit = False"
| "is_Exception _ = True"

text \<open>Python's truth value of an object, as \<^verbatim>\<open>if x:\<close> reads it.\<close>

fun truthy :: "pyval \<Rightarrow> bool" where
  "truthy VNone = False"
| "truthy (VBool b) = b"
| "truthy (VInt i) = (i \<noteq> 0)"
| "truthy (VFloat m e) = (m \<noteq> 0)"
| "truthy (VStr s) = (s \<noteq> [])"
| "truthy (VList xs) = (xs \<noteq> [])"
| "truthy (VDict d) = (d \<noteq> [])"
| "truthy (VObj a) = True"

text \<open>
  A dictionary with string keys is an association list with distinct keys, kept so by
  \<open>AList.update\<close>; \<open>has_key\<close> is the helper of \<^verbatim>\<open>binwalk.core.compat\<close>.
\<close>

type_synonym pydict = "(string \<times> pyval) list"

definition has_key :: "(string \<times> 'v) list \<Rightarrow> string \<Rightarrow> bool" where
  "has_key d k = (case map_of d k of None \<Rightarrow> False | Some v \<Rightarrow> True)"

section \<open>The built-in \<^verbatim>\<open>int(text, 0)\<close>\<close>

text \<open>
  \<^verbatim>\<open>int(value, 0)\<close> reads \<open>value\<close> like an integer literal: surrounding white space is
  dropped, a sign may lead, the prefixes \<^verbatim>\<open>0x\<close>, \<^verbatim>\<open>0o\<close>, \<^verbatim>\<open>0b\<close> (either case) choose
  base 16, 8 and 2, and anything else is decimal. The rules are those of Python 3: single
  underscores may separate digits, and a decimal literal with a leading zero must be zero
  (Python 2 read such a literal as octal). A text that is no literal raises \<open>ValueError\<close>;
  an argument that is no string raises \<open>TypeError\<close>.
\<close>

definition is_space :: "char \<Rightarrow> bool" where
  "is_space c = (c \<in> set [CHR '' '', CHR 0x09, CHR 0x0A, CHR 0x0B, CHR 0x0C, CHR 0x0D])"

definition strip :: "string \<Rightarrow> string" where
  "strip s = rev (dropWhile is_space (rev (dropWhile is_space s)))"

fun index_of :: "char \<Rightarrow> string \<Rightarrow> nat \<Rightarrow> nat option" where
  "index_of c [] i = None"
| "index_of c (d # ds) i = (if c = d then Some i else index_of c ds (Suc i))"

definition digit_of :: "char \<Rightarrow> nat option" where
  "digit_of c =
     (case index_of c ''0123456789abcdefghijklmnopqrstuvwxyz'' 0 of
        Some d \<Rightarrow> Some d
      | None \<Rightarrow> index_of c ''ABCDEFGHIJKLMNOPQRSTUVWXYZ'' 10)"

fun digits :: "nat \<Rightarrow> string \<Rightarrow> bool \<Rightarrow> nat \<Rightarrow> nat option" where
  "digits b [] prev acc = (if prev then Some acc else None)"
| "digits b (c # cs) prev acc =
     (if c = CHR ''_'' then (if prev then digits b cs False acc else None)
      else (case digit_of c of
              None \<Rightarrow> None
            | Some d \<Rightarrow> if d < b then digits b cs True (acc * b + d) else None))"

definition number :: "nat \<Rightarrow> string \<Rightarrow> nat option" where
  "number b cs = digits b cs False 0"

definition after_prefix :: "nat \<Rightarrow> string \<Rightarrow> nat option" where
  "after_prefix b cs = (case cs of CHR ''_'' # r \<Rightarrow> number b r | _ \<Rightarrow> number b cs)"

fun unsigned_literal :: "string \<Rightarrow> nat option" where
  "unsigned_literal (CHR ''0'' # p # cs) =
     (if p = CHR ''x'' \<or> p = CHR ''X'' then after_prefix 16 cs
      else if p = CHR ''o'' \<or> p = CHR ''O'' then after_prefix 8 cs
      else if p = CHR ''b'' \<or> p = CHR ''B'' then after_prefix 2 cs
      else (case number 10 (CHR ''0'' # p # cs) of
              Some n \<Rightarrow> if n = 0 then Some 0 else None
            | None \<Rightarrow> None))"
| "unsigned_literal cs = number 10 cs"

definition int_base0 :: "string \<Rightarrow> int option" where
  "int_base0 s =
     (case strip s of
        CHR ''-'' # cs \<Rightarrow> map_option (\<lambda>n. - int n) (unsigned_literal cs)
      | CHR ''+'' # cs \<Rightarrow> map_option int (unsigned_literal cs)
      | cs \<Rightarrow> map_option int (unsigned_literal cs))"

definition py_int0 :: "pyval \<Rightarrow> exn + pyval" where
  "py_int0 v =
     (case v of
        VStr s \<Rightarrow> (case int_base0 s of
                     Some i \<Rightarrow> Inr (VInt i)
                   | None \<Rightarrow> Inl (ValueError s))
      | _ \<Rightarrow> Inl (TypeError ''int() cannot convert non-string with explicit base''))"

section \<open>Option declarations and \<^verbatim>\<open>Modules.argv\<close>\<close>

text \<open>
  The accepted data type of an option (\<^verbatim>\<open>Option.type\<close>): \<open>NoType\<close> is \<^verbatim>\<open>None\<close> (a flag
  that takes no value), \<open>BlockFile\<close> is \<^verbatim>\<open>binwalk.core.common.BlockFile\<close>, and \<open>OtherT\<close>
  is any class that \<^verbatim>\<open>Modules.argv\<close> does not single out (\<^verbatim>\<open>str\<close>, \<^verbatim>\<open>io.FileIO\<close>, ...).
\<close>

datatype opt_type = NoType | BlockFile | IntT | FloatT | DictT | ListT | OtherT string

text \<open>
  The fields of class \<^verbatim>\<open>Option\<close> that \<^verbatim>\<open>Modules.argv\<close> reads (\<open>description\<close> and \<open>dtype\<close>
  only feed the help text). \<open>kwargs\<close> is the dictionary of constructor keywords the
  option sets, in its iteration order.
\<close>

record Option_spec =
  kwargs :: pydict
  priority :: int
  short :: string
  long :: string
  otype :: opt_type

text \<open>\<^verbatim>\<open>x not in [None, False]\<close> compares with \<^verbatim>\<open>==\<close>, under which zero equals \<^verbatim>\<open>False\<close>.\<close>

fun in_None_False :: "pyval \<Rightarrow> bool" where
  "in_None_False VNone = True"
| "in_None_False (VBool b) = (\<not> b)"
| "in_None_False (VInt i) = (i = 0)"
| "in_None_False (VFloat m e) = (m = 0)"
| "in_None_False _ = False"

text \<open>
  Lines 568 to 581: the write of one value under one key, by the option's type. The
  float parser \<^verbatim>\<open>float\<close> is a parameter. \<open>DictT\<close> assigns under the next integer index and
  \<open>ListT\<close> appends; on a stored value of another shape Python raises, as written out.
\<close>

definition store_kwarg ::
    "(pyval \<Rightarrow> exn + pyval) \<Rightarrow> opt_type \<Rightarrow> string \<Rightarrow> pyval \<Rightarrow> pydict \<Rightarrow> exn + pydict" where
  "store_kwarg py_float t name v kw =
     (case t of
        IntT \<Rightarrow> (case py_int0 v of Inl e \<Rightarrow> Inl e | Inr i \<Rightarrow> Inr (AList.update name i kw))
      | FloatT \<Rightarrow> (case py_float v of Inl e \<Rightarrow> Inl e | Inr f \<Rightarrow> Inr (AList.update name f kw))
      | DictT \<Rightarrow>
          (let kw1 = (if has_key kw name then kw else AList.update name (VDict []) kw) in
           case map_of kw1 name of
             Some (VDict d) \<Rightarrow>
               Inr (AList.update name (VDict (AList.update (VInt (int (length d))) v d)) kw1)
           | Some (VList l) \<Rightarrow> Inl (IndexError ''list assignment index out of range'')
           | Some (VStr s) \<Rightarrow> Inl (TypeError ''object does not support item assignment'')
           | _ \<Rightarrow> Inl (TypeError ''object has no len()''))
      | ListT \<Rightarrow>
          (let kw1 = (if has_key kw name then kw else AList.update name (VList []) kw) in
           case map_of kw1 name of
             Some (VList l) \<Rightarrow> Inr (AList.update name (VList (l @ [v])) kw1)
           | _ \<Rightarrow> Inl (AttributeError ''append''))
      | _ \<Rightarrow> Inr (AList.update name v kw))"

text \<open>
  Lines 559 to 581: the loop over the items of \<^verbatim>\<open>module_option.kwargs\<close>. The state is
  the pair of \<^verbatim>\<open>kwargs\<close> and \<^verbatim>\<open>last_priority\<close>; \<open>arg\<close> is \<^verbatim>\<open>args[module_option.long]\<close>.
\<close>

fun write_kwargs ::
    "(pyval \<Rightarrow> exn + pyval) \<Rightarrow> Option_spec \<Rightarrow> pyval \<Rightarrow> pydict \<Rightarrow>
     pydict \<times> (string \<times> int) list \<Rightarrow> exn + (pydict \<times> (string \<times> int) list)" where
  "write_kwargs py_float opt arg [] st = Inr st"
| "write_kwargs py_float opt arg ((name, value0) # items) (kw, last_priority) =
     (if (case map_of last_priority name of None \<Rightarrow> True | Some p \<Rightarrow> p \<le> priority opt)
      then (case store_kwarg py_float (otype opt) name
                   (if otype opt \<noteq> NoType then arg else value0) kw of
              Inl e \<Rightarrow> Inl e
            | Inr kw1 \<Rightarrow>
                write_kwargs py_float opt arg items
                  (kw1, AList.update name (priority opt) last_priority))
      else write_kwargs py_float opt arg items (kw, last_priority))"

text \<open>
  Lines 548 to 581: the loop over \<^verbatim>\<open>module.CLI\<close>. \<open>args\<close> and \<open>unknown\<close> are the two
  results of \<^verbatim>\<open>parser.parse_known_args(argv)\<close>, a call into the standard library.
\<close>

fun options_loop ::
    "(pyval \<Rightarrow> exn + pyval) \<Rightarrow> Option_spec list \<Rightarrow> pydict \<Rightarrow> string list \<Rightarrow>
     pydict \<times> (string \<times> int) list \<Rightarrow> exn + (pydict \<times> (string \<times> int) list)" where
  "options_loop py_float [] args unknown st = Inr st"
| "options_loop py_float (opt # opts) args unknown (kw, last_priority) =
     (if otype opt = BlockFile
      then options_loop py_float opts args unknown
             (fold (\<lambda>k kw1. AList.update k (VList (map VStr unknown)) kw1)
                (map fst (kwargs opt)) kw, last_priority)
      else (case map_of args (long opt) of
              None \<Rightarrow> options_loop py_float opts args unknown (kw, last_priority)
            | Some arg \<Rightarrow>
                if in_None_False arg
                then options_loop py_float opts args unknown (kw, last_priority)
                else (case write_kwargs py_float opt arg (kwargs opt) (kw, last_priority) of
                        Inl e \<Rightarrow> Inl e
                      | Inr st1 \<Rightarrow> options_loop py_float opts args unknown st1)))"

definition Modules_argv ::
    "(pyval \<Rightarrow> exn + pyval) \<Rightarrow> Option_spec list \<Rightarrow> pydict \<Rightarrow> string list \<Rightarrow> exn + pydict" where
  "Modules_argv py_float CLI args unknown =
     (case options_loop py_float CLI args unknown ([], []) of
        Inl e \<Rightarrow> Inl e
      | Inr (kw, last_priority) \<Rightarrow>
          Inr (if has_key kw ''enabled'' then kw else AList.update ''enabled'' (VBool False) kw))"

section \<open>Keyword declarations and \<^verbatim>\<open>Modules.kwargs\<close>\<close>

text \<open>
  Class \<^verbatim>\<open>Kwarg\<close>: the name of a constructor keyword and its default (the description
  is not read by the code below).
\<close>

record Kwarg =
  name :: string
  default_value :: pyval

text \<open>
  The object that \<^verbatim>\<open>Modules.kwargs\<close> fills. \<open>attrs\<close> is the instance dictionary that
  \<^verbatim>\<open>setattr\<close> writes; \<open>fixed_attrs\<close> lists the names of the attributes the object has
  besides (the attributes and methods of its class, and the fields its constructor set
  before), which \<^verbatim>\<open>hasattr\<close> finds as well; \<open>obj_KWARGS\<close> is the attribute
  \<^verbatim>\<open>KWARGS\<close> that the object inherits from its class, \<open>None\<close> when the class has none.
\<close>

record pyobject =
  obj_KWARGS :: "Kwarg list option"
  fixed_attrs :: "string list"
  attrs :: pydict

definition hasattr :: "'a pyobject_scheme \<Rightarrow> string \<Rightarrow> bool" where
  "hasattr obj k =
     (has_key (attrs obj) k \<or> k \<in> set (fixed_attrs obj) \<or> (k = ''KWARGS'' \<and> obj_KWARGS obj \<noteq> None))"

definition setattr :: "'a pyobject_scheme \<Rightarrow> string \<Rightarrow> pyval \<Rightarrow> 'a pyobject_scheme" where
  "setattr obj k v = obj\<lparr>attrs := AList.update k v (attrs obj)\<rparr>"

text \<open>
  The names class \<^verbatim>\<open>Module\<close> defines (lines 116 to 338) and the fields \<^verbatim>\<open>Module.__init__\<close>
  sets before it calls \<^verbatim>\<open>process_kwargs\<close> (lines 144 to 148).
\<close>

definition Module_attrs :: "string list" where
  "Module_attrs =
     [''errors'', ''results'', ''status'', ''name'', ''plugins'',
      ''TITLE'', ''CLI'', ''KWARGS'', ''DEPENDS'', ''HEADER_FORMAT'', ''RESULT_FORMAT'',
      ''HEADER'', ''RESULT'', ''__init__'', ''load'', ''init'', ''run'', ''callback'',
      ''validate'', ''_plugins_pre_scan'', ''_plugins_post_scan'', ''_plugins_result'',
      ''_build_display_args'', ''result'', ''error'', ''header'', ''footer'', ''main'']"

text \<open>Lines 598 to 604: every declared name gets the supplied value or the default.\<close>

definition assign_declared :: "Kwarg list \<Rightarrow> pydict \<Rightarrow> 'a pyobject_scheme \<Rightarrow> 'a pyobject_scheme" where
  "assign_declared decls kw module =
     fold (\<lambda>module_argument m.
             setattr m (name module_argument)
               (case map_of kw (name module_argument) of
                  Some arg_value \<Rightarrow> arg_value
                | None \<Rightarrow> default_value module_argument))
          decls module"

text \<open>Lines 606 to 608: a supplied keyword is attached unless the object has the attribute.\<close>

definition attach_supplied :: "pydict \<Rightarrow> 'a pyobject_scheme \<Rightarrow> 'a pyobject_scheme" where
  "attach_supplied kw module =
     fold (\<lambda>(k, v) m. if \<not> hasattr m k then setattr m k v else m) kw module"

definition Modules_kwargs :: "'a pyobject_scheme \<Rightarrow> pydict \<Rightarrow> exn + 'a pyobject_scheme" where
  "Modules_kwargs module kw =
     (case obj_KWARGS module of
        Some decls \<Rightarrow> Inr (attach_supplied kw (assign_declared decls kw module))
      | None \<Rightarrow> Inl (Exception ''binwalk.core.module.Modules.process_kwargs: no attribute KWARGS''))"

text \<open>\<^verbatim>\<open>process_kwargs\<close> (line 622) is the same call on a fresh \<^verbatim>\<open>Modules()\<close>.\<close>

definition process_kwargs :: "'a pyobject_scheme \<Rightarrow> pydict \<Rightarrow> exn + 'a pyobject_scheme" where
  "process_kwargs obj kw = Modules_kwargs obj kw"

section \<open>Results, errors, modules and the object store\<close>

text \<open>
  Class \<^verbatim>\<open>Result\<close> (lines 85 to 93): the six attributes the constructor sets, with the
  types its documentation gives them, and the additional keywords in \<open>extra\<close>. \<open>file_obj\<close> is
  the attribute \<^verbatim>\<open>file\<close>, the file object of the scanned file, of which \<^verbatim>\<open>Module.result\<close> reads \<^verbatim>\<open>length\<close>,
  \<^verbatim>\<open>tell()\<close> and \<^verbatim>\<open>offset\<close>. Class \<^verbatim>\<open>Error\<close> adds the exception, and \<^verbatim>\<open>Module.error\<close>
  the reporting module.
\<close>

record File =
  handle :: nat
  file_length :: int
  tell :: int
  file_offset :: int

record Result =
  offset :: int
  description :: string
  file_obj :: "File option"
  valid :: bool
  display :: bool
  extract_flag :: bool
  extra :: pydict

record Error = Result +
  exception :: "exn option"
  module :: nat

definition Error_init :: "exn \<Rightarrow> Error" where
  "Error_init e =
     \<lparr>offset = 0, description = [], file_obj = None, valid = True, display = True,
      extract_flag = True, extra = [], exception = Some e, module = 0\<rparr>"

text \<open>\<^verbatim>\<open>getattr(r, name)\<close> on a Result, as \<^verbatim>\<open>_build_display_args\<close> calls it.\<close>

definition Result_getattr :: "Result \<Rightarrow> string \<Rightarrow> exn + pyval" where
  "Result_getattr r n =
     (if n = ''offset'' then Inr (VInt (offset r))
      else if n = ''description'' then Inr (VStr (description r))
      else if n = ''file'' then Inr (case file_obj r of None \<Rightarrow> VNone | Some f \<Rightarrow> VObj (handle f))
      else if n = ''valid'' then Inr (VBool (valid r))
      else if n = ''display'' then Inr (VBool (display r))
      else if n = ''extract'' then Inr (VBool (extract_flag r))
      else (case map_of (extra r) n of
              Some v \<Rightarrow> Inr v
            | None \<Rightarrow> Inl (AttributeError n)))"

text \<open>
  Class \<^verbatim>\<open>Status\<close> as \<^verbatim>\<open>Modules.__init__\<close> builds it, and the display collaborator that
  a configuration module keeps in its attribute \<^verbatim>\<open>display\<close>: the two flags that
  \<^verbatim>\<open>Module.__init__\<close> sets, and the argument lists its method \<^verbatim>\<open>result\<close> has received.
\<close>

record Status =
  completed :: int
  total :: int

record Display =
  quiet :: bool
  log :: pyval
  shown :: "pyval list list"

text \<open>
  A module instance: the attribute dictionary that \<^verbatim>\<open>process_kwargs\<close> fills, the name of
  its class, and the fields of \<^verbatim>\<open>Module.__init__\<close>. \<open>status\<close> is \<open>None\<close> until \<^verbatim>\<open>main\<close>
  sets it. \<open>display_of\<close> is the attribute \<^verbatim>\<open>display\<close>, which only a configuration module
  has. The fields \<open>errors\<close>, \<open>results\<close> and \<open>status\<close> are kept apart from the dictionary:
  a class whose \<^verbatim>\<open>KWARGS\<close> redeclare these names is outside the model.
\<close>

record Module = pyobject +
  cls :: string
  errors :: "Error list"
  results :: "Result list"
  status :: "Status option"
  display_of :: "Display option"

text \<open>
  Objects live in a store, addressed by numbers, since modules hold references to their
  dependencies. The \<open>trace\<close> is bookkeeping for the properties below: it records every
  instantiation of a module class and every call of a hook or callback, in order. The
  hooks cannot reach it.
\<close>

datatype event = Instantiated string nat | Called nat string

record world =
  heap :: "nat \<Rightarrow> Module"
  trace :: "event list"

text \<open>
  What a module class declares: the class attributes \<^verbatim>\<open>CLI\<close>, \<^verbatim>\<open>KWARGS\<close>, \<^verbatim>\<open>DEPENDS\<close> (in
  iteration order) and \<^verbatim>\<open>RESULT\<close>, further class attributes with their values, and the
  methods a subclass may override. A method is a function of the address of \<^verbatim>\<open>self\<close> and
  the store; it returns normally or raises. \<open>load_plugins\<close>, \<open>pre_scan_callbacks\<close>,
  \<open>post_scan_callbacks\<close> and \<open>scan_callbacks\<close> are the four methods of the plugin
  collaborator \<^verbatim>\<open>self.plugins\<close>.
\<close>

datatype columns = NoColumns | Column string | Columns "string list"

type_synonym hook = "nat \<Rightarrow> (nat \<Rightarrow> Module) \<Rightarrow> exn option \<times> (nat \<Rightarrow> Module)"
type_synonym result_hook = "nat \<Rightarrow> Result \<Rightarrow> (nat \<Rightarrow> Module) \<Rightarrow> (exn + Result) \<times> (nat \<Rightarrow> Module)"

record module_class =
  CLI :: "Option_spec list"
  KWARGS :: "Kwarg list"
  DEPENDS :: "(string \<times> string) list"
  RESULT :: columns
  class_dict :: pydict
  load :: hook
  init :: hook
  run :: "nat \<Rightarrow> (nat \<Rightarrow> Module) \<Rightarrow> (exn + pyval) \<times> (nat \<Rightarrow> Module)"
  callback :: result_hook
  validate :: result_hook
  load_plugins :: hook
  pre_scan_callbacks :: hook
  post_scan_callbacks :: hook
  scan_callbacks :: result_hook

text \<open>The methods of class \<^verbatim>\<open>Module\<close> itself (lines 166 to 211).\<close>

definition Module_load :: hook where
  "Module_load self h = (None, h)"

definition Module_init_hook :: hook where
  "Module_init_hook self h = (None, h)"

definition Module_run :: "nat \<Rightarrow> (nat \<Rightarrow> Module) \<Rightarrow> (exn + pyval) \<times> (nat \<Rightarrow> Module)" where
  "Module_run self h = (Inr (VBool False), h)"

definition Module_callback :: result_hook where
  "Module_callback self r h = (Inr r, h)"

definition Module_validate :: result_hook where
  "Module_validate self r h = (Inr (r\<lparr>valid := True\<rparr>), h)"

text \<open>
  The environment of a run: the members of the package \<^verbatim>\<open>binwalk.modules\<close> (attribute
  name and class, in the order of \<^verbatim>\<open>inspect.getmembers\<close>; every member is taken to be
  a subclass of \<^verbatim>\<open>Module\<close>, so that it has \<^verbatim>\<open>run\<close>, \<^verbatim>\<open>CLI\<close> and \<^verbatim>\<open>DEPENDS\<close>), the
  declarations of each class, and two calls into the standard library: the parser
  \<^verbatim>\<open>parse_known_args\<close> built from the options with a long name, and \<^verbatim>\<open>float\<close>.
\<close>

record env =
  members :: "(string \<times> string) list"
  classes :: "string \<Rightarrow> module_class"
  parse_known_args :: "Option_spec list \<Rightarrow> string list \<Rightarrow> exn + (pydict \<times> string list)"
  float_builtin :: "pyval \<Rightarrow> exn + pyval"

definition class_of :: "env \<Rightarrow> 'a world_scheme \<Rightarrow> nat \<Rightarrow> module_class" where
  "class_of env w a = classes env (cls (heap w a))"

text \<open>\<^verbatim>\<open>getattr(self, k)\<close> for a value: the instance dictionary, then the class.\<close>

definition Module_getattr :: "env \<Rightarrow> Module \<Rightarrow> string \<Rightarrow> exn + pyval" where
  "Module_getattr env m k =
     (case map_of (attrs m) k of
        Some v \<Rightarrow> Inr v
      | None \<Rightarrow> (case map_of (class_dict (classes env (cls m))) k of
                   Some v \<Rightarrow> Inr v
                 | None \<Rightarrow> Inl (AttributeError k)))"

text \<open>
  \<^verbatim>\<open>self.config.display\<close>: the address of the configuration module, when \<open>self\<close> has
  the attribute \<^verbatim>\<open>config\<close> and that object has a display.
\<close>

definition config_display :: "env \<Rightarrow> 'a world_scheme \<Rightarrow> nat \<Rightarrow> exn + (nat \<times> Display)" where
  "config_display env w self =
     (case Module_getattr env (heap w self) ''config'' of
        Inl e \<Rightarrow> Inl e
      | Inr (VObj a) \<Rightarrow> (case display_of (heap w a) of
                           Some d \<Rightarrow> Inr (a, d)
                         | None \<Rightarrow> Inl (AttributeError ''display''))
      | Inr v \<Rightarrow> Inl (AttributeError ''display''))"

definition set_display :: "nat \<Rightarrow> Display \<Rightarrow> 'a world_scheme \<Rightarrow> 'a world_scheme" where
  "set_display a d w = w\<lparr>heap := (heap w)(a := (heap w a)\<lparr>display_of := Some d\<rparr>)\<rparr>"

text \<open>Running a hook on the store of the world, and recording the call.\<close>

definition call :: "hook \<Rightarrow> string \<Rightarrow> nat \<Rightarrow> 'a world_scheme \<Rightarrow> exn option \<times> 'a world_scheme" where
  "call f label self w =
     (case f self (heap w) of
        (r, h) \<Rightarrow> (r, w\<lparr>heap := h, trace := trace w @ [Called self label]\<rparr>))"

definition call_result ::
    "result_hook \<Rightarrow> string \<Rightarrow> nat \<Rightarrow> Result \<Rightarrow> 'a world_scheme \<Rightarrow> (exn + Result) \<times> 'a world_scheme" where
  "call_result f label self r w =
     (case f self r (heap w) of
        (x, h) \<Rightarrow> (x, w\<lparr>heap := h, trace := trace w @ [Called self label]\<rparr>))"

section \<open>The methods of a module: \<^verbatim>\<open>error\<close>, \<^verbatim>\<open>result\<close>, \<^verbatim>\<open>__init__\<close> and \<^verbatim>\<open>main\<close>\<close>

text \<open>
  \<^verbatim>\<open>Module.error\<close> (lines 279 to 282): the Error gets the reporting module and is appended
  to \<^verbatim>\<open>self.errors\<close>. The text it writes to \<^verbatim>\<open>sys.stderr\<close> is not modelled.
\<close>

definition Module_error :: "nat \<Rightarrow> Error \<Rightarrow> 'a world_scheme \<Rightarrow> 'a world_scheme" where
  "Module_error self e w =
     w\<lparr>heap := (heap w)(self := (heap w self)
          \<lparr>errors := errors (heap w self) @ [e\<lparr>module := self\<rparr>]\<rparr>)\<rparr>"

text \<open>
  The two handlers that follow every \<^verbatim>\<open>try\<close> of the class:
  \<^verbatim>\<open>except KeyboardInterrupt as e: raise e\<close> and
  \<^verbatim>\<open>except Exception as e: self.error(exception=e)\<close>. The result is the exception that
  leaves the \<^verbatim>\<open>try\<close> statement, if any.
\<close>

definition handlers :: "nat \<Rightarrow> exn \<Rightarrow> 'a world_scheme \<Rightarrow> exn option \<times> 'a world_scheme" where
  "handlers self e w =
     (if e = KeyboardInterrupt then (Some e, w)
      else if is_Exception e then (None, Module_error self (Error_init e) w)
      else (Some e, w))"

text \<open>\<^verbatim>\<open>Module._build_display_args\<close> (lines 222 to 234).\<close>

fun getattrs :: "Result \<Rightarrow> string list \<Rightarrow> exn + pyval list" where
  "getattrs r [] = Inr []"
| "getattrs r (n # ns) =
     (case Result_getattr r n of
        Inl e \<Rightarrow> Inl e
      | Inr v \<Rightarrow> (case getattrs r ns of Inl e \<Rightarrow> Inl e | Inr vs \<Rightarrow> Inr (v # vs)))"

definition build_display_args :: "columns \<Rightarrow> Result \<Rightarrow> exn + pyval list" where
  "build_display_args cols r =
     (case cols of
        NoColumns \<Rightarrow> Inr []
      | Column n \<Rightarrow> if n = [] then Inr [] else getattrs r [n]
      | Columns ns \<Rightarrow> if ns = [] then Inr [] else getattrs r ns)"

text \<open>
  Lines 250 to 252: the callback of every dependency declared in \<^verbatim>\<open>DEPENDS\<close>, in
  iteration order. The dependency is the object that the attribute of \<open>self\<close> refers to.
\<close>

fun dependency_callbacks ::
    "env \<Rightarrow> nat \<Rightarrow> (string \<times> string) list \<Rightarrow> Result \<Rightarrow> 'a world_scheme \<Rightarrow>
     (exn + Result) \<times> 'a world_scheme" where
  "dependency_callbacks env self [] r w = (Inr r, w)"
| "dependency_callbacks env self ((attribute, module_name) # deps) r w =
     (case Module_getattr env (heap w self) attribute of
        Inl e \<Rightarrow> (Inl e, w)
      | Inr (VObj dependency) \<Rightarrow>
          (case call_result (callback (class_of env w dependency)) ''callback'' dependency r w of
             (Inl e, w1) \<Rightarrow> (Inl e, w1)
           | (Inr r1, w1) \<Rightarrow> dependency_callbacks env self deps r1 w1)
      | Inr v \<Rightarrow> (Inl (AttributeError ''callback''), w))"

text \<open>
  Lines 248 to 254: \<^verbatim>\<open>validate\<close>, the dependency callbacks and the per-result callback
  of the plugins, each on the Result the one before has left.
\<close>

definition callback_chain ::
    "env \<Rightarrow> module_class \<Rightarrow> nat \<Rightarrow> Result \<Rightarrow> 'a world_scheme \<Rightarrow> (exn + Result) \<times> 'a world_scheme" where
  "callback_chain env c self r w =
     (case call_result (validate c) ''validate'' self r w of
        (Inl e, w1) \<Rightarrow> (Inl e, w1)
      | (Inr r1, w1) \<Rightarrow>
          (case dependency_callbacks env self (DEPENDS c) r1 w1 of
             (Inl e, w2) \<Rightarrow> (Inl e, w2)
           | (Inr r2, w2) \<Rightarrow> call_result (scan_callbacks c) ''scan_callbacks'' self r2 w2))"

text \<open>Lines 260 to 262: the progress status, when the module does not keep it itself.\<close>

definition update_status :: "nat \<Rightarrow> Result \<Rightarrow> 'a world_scheme \<Rightarrow> exn option \<times> 'a world_scheme" where
  "update_status self r w =
     (case file_obj r of
        None \<Rightarrow> (None, w)
      | Some f \<Rightarrow>
          (case status (heap w self) of
             None \<Rightarrow> (Some (AttributeError ''total''), w)
           | Some st \<Rightarrow>
               if total st = 0
               then (None, w\<lparr>heap := (heap w)(self := (heap w self)
                       \<lparr>status := Some \<lparr>completed = tell f - file_offset f,
                                        total = file_length f\<rparr>\<rparr>)\<rparr>)
               else (None, w)))"

text \<open>Lines 264 to 267: the Result is handed to the display of the configuration module.\<close>

definition display_result :: "env \<Rightarrow> module_class \<Rightarrow> nat \<Rightarrow> Result \<Rightarrow> 'a world_scheme \<Rightarrow> exn option \<times> 'a world_scheme" where
  "display_result env c self r w =
     (if display r
      then (case build_display_args (RESULT c) r of
              Inl e \<Rightarrow> (Some e, w)
            | Inr display_args \<Rightarrow>
                if display_args \<noteq> []
                then (case config_display env w self of
                        Inl e \<Rightarrow> (Some e, w)
                      | Inr (a, d) \<Rightarrow>
                          (None, set_display a (d\<lparr>shown := shown d @ [display_args]\<rparr>) w))
                else (None, w))
      else (None, w))"

text \<open>
  \<^verbatim>\<open>Module.result\<close> (lines 248 to 267) for a Result that is passed in; with keywords, \<open>r\<close>
  is the Result built from them. The test of \<^verbatim>\<open>r.valid\<close> comes after the whole chain.
\<close>

definition Module_result :: "env \<Rightarrow> nat \<Rightarrow> Result \<Rightarrow> 'a world_scheme \<Rightarrow> exn option \<times> 'a world_scheme" where
  "Module_result env self r w =
     (let c = class_of env w self in
      case callback_chain env c self r w of
        (Inl e, w1) \<Rightarrow> (Some e, w1)
      | (Inr r1, w1) \<Rightarrow>
          if valid r1
          then (case update_status self r1
                       (w1\<lparr>heap := (heap w1)(self := (heap w1 self)
                             \<lparr>results := results (heap w1 self) @ [r1]\<rparr>)\<rparr>) of
                  (Some e, w2) \<Rightarrow> (Some e, w2)
                | (None, w2) \<Rightarrow> display_result env c self r1 w2)
          else (None, w1))"

text \<open>
  Lines 153 to 155 of \<^verbatim>\<open>Module.__init__\<close>: a module loaded as a dependency silences the
  display.
\<close>

definition quiet_display :: "env \<Rightarrow> nat \<Rightarrow> 'a world_scheme \<Rightarrow> exn option \<times> 'a world_scheme" where
  "quiet_display env self w =
     (case config_display env w self of
        Inl e \<Rightarrow> (Some e, w)
      | Inr (a, d) \<Rightarrow> (None, set_display a (d\<lparr>quiet := True, log := VNone\<rparr>) w))"

text \<open>
  \<^verbatim>\<open>Module.__init__\<close> (lines 143 to 164) for an object of class \<open>cname\<close> at the fresh address
  \<open>self\<close>. \<open>init_fields\<close> is lines 144 to 155: the fields, \<^verbatim>\<open>process_kwargs\<close> and the
  silencing of the display. The result is the exception that leaves the constructor, if
  any.
\<close>

definition new_module :: "env \<Rightarrow> string \<Rightarrow> Module" where
  "new_module env cname =
     \<lparr>obj_KWARGS = Some (KWARGS (classes env cname)),
      fixed_attrs = Module_attrs @ map fst (class_dict (classes env cname)),
      attrs = [], cls = cname, errors = [], results = [], status = None,
      display_of = None\<rparr>"

definition init_fields ::
    "env \<Rightarrow> string \<Rightarrow> nat \<Rightarrow> bool \<Rightarrow> pydict \<Rightarrow> 'a world_scheme \<Rightarrow> exn option \<times> 'a world_scheme" where
  "init_fields env cname self dependency kw w =
     (case process_kwargs (new_module env cname) kw of
        Inl e \<Rightarrow> (Some e, w\<lparr>heap := (heap w)(self := new_module env cname)\<rparr>)
      | Inr m1 \<Rightarrow>
          if dependency then quiet_display env self (w\<lparr>heap := (heap w)(self := m1)\<rparr>)
          else (None, w\<lparr>heap := (heap w)(self := m1)\<rparr>))"

definition Module_init ::
    "env \<Rightarrow> string \<Rightarrow> nat \<Rightarrow> bool \<Rightarrow> pydict \<Rightarrow> 'a world_scheme \<Rightarrow> exn option \<times> 'a world_scheme" where
  "Module_init env cname self dependency kw w =
     (let c = classes env cname
      in case init_fields env cname self dependency kw w of
           (Some e, w1) \<Rightarrow> (Some e, w1)
         | (None, w1) \<Rightarrow>
             (case call (load c) ''load'' self w1 of
                (Some e, w2) \<Rightarrow>
                  (case handlers self e w2 of
                     (Some e', w3) \<Rightarrow> (Some e', w3)
                   | (None, w3) \<Rightarrow> call (load_plugins c) ''load_plugins'' self w3)
              | (None, w2) \<Rightarrow> call (load_plugins c) ''load_plugins'' self w2))"

text \<open>
  \<^verbatim>\<open>Module.main\<close> (lines 308 to 338). \<open>format_strings\<close> is the call
  \<^verbatim>\<open>self.config.display.format_strings(...)\<close>, which needs the display to be there.
\<close>

definition format_strings :: "env \<Rightarrow> nat \<Rightarrow> 'a world_scheme \<Rightarrow> exn option \<times> 'a world_scheme" where
  "format_strings env self w =
     (case config_display env w self of
        Inl e \<Rightarrow> (Some e, w)
      | Inr (a, d) \<Rightarrow> (None, w))"

definition call_run ::
    "(nat \<Rightarrow> (nat \<Rightarrow> Module) \<Rightarrow> (exn + pyval) \<times> (nat \<Rightarrow> Module)) \<Rightarrow> nat \<Rightarrow> 'a world_scheme \<Rightarrow>
     (exn + pyval) \<times> 'a world_scheme" where
  "call_run f self w =
     (case f self (heap w) of
        (x, h) \<Rightarrow> (x, w\<lparr>heap := h, trace := trace w @ [Called self ''run'']\<rparr>))"

definition failed :: "nat \<Rightarrow> exn \<Rightarrow> 'a world_scheme \<Rightarrow> (exn + pyval) \<times> 'a world_scheme" where
  "failed self e w =
     (case handlers self e w of
        (Some e', w1) \<Rightarrow> (Inl e', w1)
      | (None, w1) \<Rightarrow> (Inr (VBool False), w1))"

definition set_status :: "nat \<Rightarrow> Status \<Rightarrow> 'a world_scheme \<Rightarrow> 'a world_scheme" where
  "set_status self st w = w\<lparr>heap := (heap w)(self := (heap w self)\<lparr>status := Some st\<rparr>)\<rparr>"

definition Module_main :: "env \<Rightarrow> nat \<Rightarrow> Status \<Rightarrow> 'a world_scheme \<Rightarrow> (exn + pyval) \<times> 'a world_scheme" where
  "Module_main env self st w =
     (let c = class_of env w self
      in case call (init c) ''init'' self (set_status self st w) of
           (Some e, w1) \<Rightarrow> failed self e w1
         | (None, w1) \<Rightarrow>
             (case format_strings env self w1 of
                (Some e, w2) \<Rightarrow> failed self e w2
              | (None, w2) \<Rightarrow>
                  (case call (pre_scan_callbacks c) ''pre_scan_callbacks'' self w2 of
                     (Some e, w3) \<Rightarrow> (Inl e, w3)
                   | (None, w3) \<Rightarrow>
                       (case call_run (run c) self w3 of
                          (Inl e, w4) \<Rightarrow> failed self e w4
                        | (Inr retval, w4) \<Rightarrow>
                            (case call (post_scan_callbacks c) ''post_scan_callbacks'' self w4 of
                               (Some e, w5) \<Rightarrow> (Inl e, w5)
                             | (None, w5) \<Rightarrow> (Inr retval, w5))))))"

section \<open>The orchestrator: class \<^verbatim>\<open>Modules\<close>\<close>

text \<open>
  The state of a \<^verbatim>\<open>Modules\<close> object: the world of module instances, the active
  arguments, the cache \<^verbatim>\<open>loaded_modules\<close> from class to instance, its Status object, and
  the next free address of the store.
\<close>

record Modules = world +
  arguments :: "string list"
  loaded_modules :: "(string \<times> nat) list"
  Modules_status :: Status
  next_addr :: nat

text \<open>
  \<^verbatim>\<open>Modules.list\<close> (lines 410 to 414), and the options the parser of \<^verbatim>\<open>Modules.argv\<close> is
  built from (lines 528 to 542).
\<close>

definition Modules_list :: "env \<Rightarrow> string list" where
  "Modules_list env = map snd (members env)"

definition parser_options :: "env \<Rightarrow> Option_spec list" where
  "parser_options env =
     filter (\<lambda>module_option. long module_option \<noteq> [])
       (concat (map (\<lambda>m. CLI (classes env m)) (Modules_list env)))"

text \<open>\<^verbatim>\<open>Modules.argv\<close> as a whole: the parse, then the loop over \<^verbatim>\<open>module.CLI\<close>.\<close>

definition Modules_argv_env :: "env \<Rightarrow> string \<Rightarrow> string list \<Rightarrow> exn + pydict" where
  "Modules_argv_env env m argv =
     (case parse_known_args env (parser_options env) argv of
        Inl e \<Rightarrow> Inl e
      | Inr (args, unknown) \<Rightarrow> Modules_argv (float_builtin env) (CLI (classes env m)) args unknown)"

text \<open>
  \<^verbatim>\<open>module(**kwargs)\<close> (line 478): a new object is made and \<^verbatim>\<open>Module.__init__\<close> runs on
  it; the keyword \<^verbatim>\<open>dependency\<close> binds to the parameter of that name.
\<close>

definition construct :: "env \<Rightarrow> string \<Rightarrow> pydict \<Rightarrow> Modules \<Rightarrow> (exn + nat) \<times> Modules" where
  "construct env m kw s =
     (let self = next_addr s;
          dependency = (case map_of kw ''dependency'' of Some v \<Rightarrow> truthy v | None \<Rightarrow> False);
          s1 = s\<lparr>trace := trace s @ [Instantiated m self], next_addr := Suc self\<rparr>
      in case Module_init env m self dependency (AList.delete ''dependency'' kw) s1 of
           (Some e, s2) \<Rightarrow> (Inl e, s2)
         | (None, s2) \<Rightarrow> (Inr self, s2))"

text \<open>
  \<^verbatim>\<open>Modules.dependencies\<close> (lines 485 to 507). \<open>run_f\<close> is the method \<^verbatim>\<open>self.run\<close> that line
  500 calls. A dependency that is not a member of \<^verbatim>\<open>binwalk.modules\<close> is skipped with a
  warning, and so is the module itself.
\<close>

fun dependencies_loop ::
    "env \<Rightarrow> (string \<Rightarrow> Modules \<Rightarrow> (exn + nat) \<times> Modules) \<Rightarrow> string \<Rightarrow> (string \<times> string) list \<Rightarrow>
     pydict \<Rightarrow> Modules \<Rightarrow> (exn + pydict) \<times> Modules" where
  "dependencies_loop env run_f m [] kw s = (Inr kw, s)"
| "dependencies_loop env run_f m ((kwarg, dependency) # deps) kw s =
     (case map_of (members env) dependency of
        None \<Rightarrow> dependencies_loop env run_f m deps kw s
      | Some d \<Rightarrow>
          if d = m then dependencies_loop env run_f m deps kw s
          else (case (if \<not> has_key (loaded_modules s) d
                      then (case run_f d s of
                              (Inl e, s1) \<Rightarrow> (Some e, s1)
                            | (Inr obj, s1) \<Rightarrow> (None, s1))
                      else (None, s)) of
                  (Some e, s1) \<Rightarrow> (Inl e, s1)
                | (None, s1) \<Rightarrow>
                    (case map_of (loaded_modules s1) d of
                       None \<Rightarrow> (Inl (KeyError d), s1)
                     | Some obj \<Rightarrow>
                         if errors (heap s1 obj) \<noteq> []
                         then (Inl (DependencyError d), s1)
                         else dependencies_loop env run_f m deps
                                (AList.update kwarg (VObj obj) kw) s1)))"

text \<open>\<^verbatim>\<open>Modules.load\<close> (lines 476 to 478).\<close>

definition load_with ::
    "env \<Rightarrow> (string \<Rightarrow> Modules \<Rightarrow> (exn + nat) \<times> Modules) \<Rightarrow> string \<Rightarrow> Modules \<Rightarrow>
     (exn + nat) \<times> Modules" where
  "load_with env run_f m s =
     (case Modules_argv_env env m (arguments s) of
        Inl e \<Rightarrow> (Inl e, s)
      | Inr kw \<Rightarrow>
          (case dependencies_loop env run_f m (DEPENDS (classes env m)) [] s of
             (Inl e, s1) \<Rightarrow> (Inl e, s1)
           | (Inr deps, s1) \<Rightarrow>
               construct env m (fold (\<lambda>(k, v). AList.update k v) deps kw) s1))"

text \<open>
  Lines 466 and 467: \<^verbatim>\<open>obj.main(status=self.status)\<close> and \<^verbatim>\<open>self.status.clear()\<close>. The
  module refers to the Status object of the orchestrator; \<^verbatim>\<open>clear\<close> sets its counters
  back to the zeros of \<^verbatim>\<open>Modules.__init__\<close>.
\<close>

definition main_and_clear :: "env \<Rightarrow> nat \<Rightarrow> Modules \<Rightarrow> exn option \<times> Modules" where
  "main_and_clear env obj s =
     (case Module_main env obj (Modules_status s) s of
        (Inl e, s1) \<Rightarrow> (Some e, s1)
      | (Inr retval, s1) \<Rightarrow>
          (None, s1\<lparr>heap := (heap s1)(obj := (heap s1 obj)
                       \<lparr>status := Some \<lparr>completed = 0, total = 0\<rparr>\<rparr>),
                    Modules_status := \<lparr>completed = 0, total = 0\<rparr>\<rparr>))"

text \<open>
  \<^verbatim>\<open>Modules.run\<close> (lines 463 to 473). The method loads the module whatever the cache
  holds, and registers the new object under the class after \<^verbatim>\<open>main\<close>.
\<close>

definition run_with ::
    "env \<Rightarrow> (string \<Rightarrow> Modules \<Rightarrow> (exn + nat) \<times> Modules) \<Rightarrow> string \<Rightarrow> Modules \<Rightarrow>
     (exn + nat) \<times> Modules" where
  "run_with env run_f m s =
     (case load_with env run_f m s of
        (Inl e, s1) \<Rightarrow> (Inl e, s1)
      | (Inr obj, s1) \<Rightarrow>
          (case Module_getattr env (heap s1 obj) ''enabled'' of
             Inl e \<Rightarrow> (Inl e, s1)
           | Inr enabled \<Rightarrow>
               (case (if truthy enabled then main_and_clear env obj s1 else (None, s1)) of
                  (Some e, s2) \<Rightarrow> (Inl e, s2)
                | (None, s2) \<Rightarrow>
                    (Inr obj, s2\<lparr>loaded_modules := AList.update m obj (loaded_modules s2)\<rparr>))))"

text \<open>
  \<^verbatim>\<open>run\<close>, \<^verbatim>\<open>load\<close> and \<^verbatim>\<open>dependencies\<close> call one another. The first argument bounds the
  depth of the calls of \<^verbatim>\<open>run\<close>, as the recursion limit of the interpreter does; at the
  bound Python raises \<open>RuntimeError\<close>.
\<close>

primrec Modules_run :: "nat \<Rightarrow> env \<Rightarrow> string \<Rightarrow> Modules \<Rightarrow> (exn + nat) \<times> Modules" where
  "Modules_run 0 env m s = (Inl (RuntimeError ''maximum recursion depth exceeded''), s)"
| "Modules_run (Suc depth) env m s = run_with env (Modules_run depth env) m s"

definition Modules_load :: "nat \<Rightarrow> env \<Rightarrow> string \<Rightarrow> Modules \<Rightarrow> (exn + nat) \<times> Modules" where
  "Modules_load depth env m s = load_with env (Modules_run depth env) m s"

definition Modules_dependencies :: "nat \<Rightarrow> env \<Rightarrow> string \<Rightarrow> Modules \<Rightarrow> (exn + pydict) \<times> Modules" where
  "Modules_dependencies depth env m s =
     dependencies_loop env (Modules_run depth env) m (DEPENDS (classes env m)) [] s"

text \<open>
  \<^verbatim>\<open>Modules.execute\<close> (lines 443 to 460). \<open>argv\<close> is the argument list that
  \<^verbatim>\<open>_set_arguments\<close> builds from the positional and keyword arguments. No statement of
  the method catches an exception, so the first one that \<^verbatim>\<open>run\<close> raises ends the sweep.
\<close>

fun sweep :: "nat \<Rightarrow> env \<Rightarrow> string list \<Rightarrow> Modules \<Rightarrow> exn option \<times> Modules" where
  "sweep depth env [] s = (None, s)"
| "sweep depth env (m # ms) s =
     (case Modules_run depth env m s of
        (Inl e, s1) \<Rightarrow> (Some e, s1)
      | (Inr obj, s1) \<Rightarrow> sweep depth env ms s1)"

fun enabled_modules :: "env \<Rightarrow> Modules \<Rightarrow> (string \<times> nat) list \<Rightarrow> exn + nat list" where
  "enabled_modules env s [] = Inr []"
| "enabled_modules env s ((m, obj) # rest) =
     (case Module_getattr env (heap s obj) ''enabled'' of
        Inl e \<Rightarrow> Inl e
      | Inr enabled \<Rightarrow>
          (case enabled_modules env s rest of
             Inl e \<Rightarrow> Inl e
           | Inr objs \<Rightarrow> Inr (if truthy enabled then obj # objs else objs)))"

definition Modules_execute :: "nat \<Rightarrow> env \<Rightarrow> string list \<Rightarrow> Modules \<Rightarrow> (exn + nat list) \<times> Modules" where
  "Modules_execute depth env argv s =
     (let orig_arguments = arguments s;
          s0 = (if argv \<noteq> [] then s\<lparr>arguments := argv\<rparr> else s)
      in case sweep depth env (Modules_list env) s0 of
           (Some e, s1) \<Rightarrow> (Inl e, s1)
         | (None, s1) \<Rightarrow>
             (case enabled_modules env s1 (loaded_modules s1) of
                Inl e \<Rightarrow> (Inl e, s1)
              | Inr run_modules \<Rightarrow> (Inr run_modules, s1\<lparr>arguments := orig_arguments\<rparr>)))"

section \<open>Class \<^verbatim>\<open>Module\<close> and small module sets\<close>

text \<open>
  The declarations of class \<^verbatim>\<open>Module\<close> itself (lines 116 to 141 and 166 to 211), with a
  plugin collaborator that has no plugins.
\<close>

definition no_plugins :: hook where
  "no_plugins self h = (None, h)"

definition Module_class :: module_class where
  "Module_class =
     \<lparr>CLI = [], KWARGS = [],
      DEPENDS = [(''config'', ''Configuration''), (''extractor'', ''Extractor'')],
      RESULT = Columns [''offset'', ''description''],
      class_dict = [],
      load = Module_load, init = Module_init_hook, run = Module_run,
      callback = Module_callback, validate = Module_validate,
      load_plugins = no_plugins, pre_scan_callbacks = no_plugins,
      post_scan_callbacks = no_plugins, scan_callbacks = Module_callback\<rparr>"

text \<open>A Modules object as \<^verbatim>\<open>Modules.__init__\<close> leaves it, and an empty store.\<close>

definition no_module :: Module where
  "no_module =
     \<lparr>obj_KWARGS = None, fixed_attrs = [], attrs = [], cls = [], errors = [], results = [],
      status = None, display_of = None\<rparr>"

definition Modules_new :: "string list \<Rightarrow> Modules" where
  "Modules_new argv =
     \<lparr>heap = (\<lambda>a. no_module), trace = [], arguments = argv, loaded_modules = [],
      Modules_status = \<lparr>completed = 0, total = 0\<rparr>, next_addr = 0\<rparr>"

text \<open>
  A parser for module sets that declare no options: every token is unknown.
\<close>

definition no_options :: "Option_spec list \<Rightarrow> string list \<Rightarrow> exn + (pydict \<times> string list)" where
  "no_options opts argv = Inr ([], argv)"

definition no_float :: "pyval \<Rightarrow> exn + pyval" where
  "no_float v = Inl (ValueError [])"

text \<open>
  Two modules: \<^verbatim>\<open>Scan\<close> depends on \<^verbatim>\<open>Helper\<close>, which depends on nothing. The members of
  the package come in the order of their names, \<^verbatim>\<open>Helper\<close> first.
\<close>

definition scan_env :: env where
  "scan_env =
     \<lparr>members = [(''Helper'', ''Helper''), (''Scan'', ''Scan'')],
      classes = (\<lambda>n. if n = ''Scan'' then Module_class\<lparr>DEPENDS := [(''helper'', ''Helper'')]\<rparr>
                      else Module_class\<lparr>DEPENDS := []\<rparr>),
      parse_known_args = no_options, float_builtin = no_float\<rparr>"

text \<open>
  The same two modules under names that put the dependent module first: \<^verbatim>\<open>Analysis\<close>
  depends on \<^verbatim>\<open>Helper\<close>.
\<close>

definition analysis_env :: env where
  "analysis_env =
     \<lparr>members = [(''Analysis'', ''Analysis''), (''Helper'', ''Helper'')],
      classes = (\<lambda>n. if n = ''Analysis'' then Module_class\<lparr>DEPENDS := [(''helper'', ''Helper'')]\<rparr>
                      else Module_class\<lparr>DEPENDS := []\<rparr>),
      parse_known_args = no_options, float_builtin = no_float\<rparr>"

text \<open>
  Three modules: \<^verbatim>\<open>Analysis\<close> depends on \<^verbatim>\<open>Broken\<close>, whose \<^verbatim>\<open>load\<close> raises; \<^verbatim>\<open>Other\<close>
  depends on nothing.
\<close>

definition raising :: "exn \<Rightarrow> hook" where
  "raising e self h = (Some e, h)"

definition broken_env :: env where
  "broken_env =
     \<lparr>members = [(''Analysis'', ''Analysis''), (''Broken'', ''Broken''), (''Other'', ''Other'')],
      classes = (\<lambda>n. if n = ''Analysis'' then Module_class\<lparr>DEPENDS := [(''broken'', ''Broken'')]\<rparr>
                      else if n = ''Broken''
                      then Module_class\<lparr>DEPENDS := [], load := raising (ValueError ''bad signature file'')\<rparr>
                      else Module_class\<lparr>DEPENDS := []\<rparr>),
      parse_known_args = no_options, float_builtin = no_float\<rparr>"

text \<open>
  Three classes whose \<^verbatim>\<open>load\<close>, \<^verbatim>\<open>init\<close> and \<^verbatim>\<open>run\<close> raise the exception \<open>e\<close>, and a world
  with one instance at address 0 whose attribute \<^verbatim>\<open>config\<close> refers to a configuration
  module at address 1 that has a display.
\<close>

definition failing_env :: "exn \<Rightarrow> env" where
  "failing_env e =
     \<lparr>members = [(''InitFails'', ''InitFails''), (''LoadFails'', ''LoadFails''),
                 (''RunFails'', ''RunFails'')],
      classes = (\<lambda>n. if n = ''LoadFails'' then Module_class\<lparr>DEPENDS := [], load := raising e\<rparr>
                      else if n = ''InitFails'' then Module_class\<lparr>DEPENDS := [], init := raising e\<rparr>
                      else Module_class\<lparr>DEPENDS := [], run := (\<lambda>self h. (Inl e, h))\<rparr>),
      parse_known_args = no_options, float_builtin = no_float\<rparr>"

definition instance_world :: "env \<Rightarrow> string \<Rightarrow> world" where
  "instance_world env cname =
     \<lparr>heap = (\<lambda>a. if a = 0 then (new_module env cname)\<lparr>attrs := [(''config'', VObj 1)]\<rparr>
                   else no_module\<lparr>display_of := Some \<lparr>quiet = False, log = VNone, shown = []\<rparr>\<rparr>),
      trace = []\<rparr>"

text \<open>
  A producer whose \<^verbatim>\<open>validate\<close> rejects every Result and whose dependency \<^verbatim>\<open>Checker\<close>
  accepts every Result in its \<^verbatim>\<open>callback\<close>; the producer is at address 0 and its
  attribute \<^verbatim>\<open>checker\<close> refers to the dependency at address 1.
\<close>

definition set_valid :: "bool \<Rightarrow> result_hook" where
  "set_valid b self r h = (Inr (r\<lparr>valid := b\<rparr>), h)"

definition veto_env :: env where
  "veto_env =
     \<lparr>members = [(''Checker'', ''Checker''), (''Producer'', ''Producer'')],
      classes = (\<lambda>n. if n = ''Producer''
                      then Module_class\<lparr>DEPENDS := [(''checker'', ''Checker'')],
                                        validate := set_valid False\<rparr>
                      else Module_class\<lparr>DEPENDS := [], callback := set_valid True\<rparr>),
      parse_known_args = no_options, float_builtin = no_float\<rparr>"

definition veto_world :: world where
  "veto_world =
     \<lparr>heap = (\<lambda>a. if a = 0 then (new_module veto_env ''Producer'')\<lparr>attrs := [(''checker'', VObj 1)]\<rparr>
                   else new_module veto_env ''Checker''),
      trace = []\<rparr>"

definition finding :: Result where
  "finding =
     \<lparr>offset = 16, description = ''data'', file_obj = None, valid = False, display = True,
      extract_flag = True, extra = []\<rparr>"

text \<open>
  A module without dependencies that keeps the default \<^verbatim>\<open>validate\<close>: with a plugin that
  rejects every Result (\<open>plugin_env\<close>), and with \<^verbatim>\<open>RESULT = None\<close> (\<open>silent_env\<close>). In the
  world \<open>instance_world\<close> the module has a display to show results on.
\<close>

definition plugin_env :: env where
  "plugin_env =
     \<lparr>members = [(''Scan'', ''Scan'')],
      classes = (\<lambda>n. Module_class\<lparr>DEPENDS := [], scan_callbacks := set_valid False\<rparr>),
      parse_known_args = no_options, float_builtin = no_float\<rparr>"

definition silent_env :: env where
  "silent_env =
     \<lparr>members = [(''Scan'', ''Scan'')],
      classes = (\<lambda>n. Module_class\<lparr>DEPENDS := [], RESULT := NoColumns\<rparr>),
      parse_known_args = no_options, float_builtin = no_float\<rparr>"

definition plain_env :: env where
  "plain_env =
     \<lparr>members = [(''Scan'', ''Scan'')],
      classes = (\<lambda>n. Module_class\<lparr>DEPENDS := []\<rparr>),
      parse_known_args = no_options, float_builtin = no_float\<rparr>"

section \<open>Properties of \<^verbatim>\<open>Modules.argv\<close>\<close>


lemma has_key_update: "has_key (AList.update k v d) n = (n = k \<or> has_key d n)"
  by (simp add: has_key_def update_conv' split: option.splits)















section \<open>Properties of \<^verbatim>\<open>Modules.kwargs\<close>\<close>

lemma setattr_fields [simp]:
  "attrs (setattr m k v) = AList.update k v (attrs m)"
  "fixed_attrs (setattr m k v) = fixed_attrs m"
  "obj_KWARGS (setattr m k v) = obj_KWARGS m"
  by (simp_all add: setattr_def)

lemma hasattr_setattr: "hasattr (setattr m k v) n = (n = k \<or> hasattr m n)"
  by (auto simp: hasattr_def has_key_def update_conv' split: option.splits)

lemma not_hasattr_attrs: "\<not> hasattr m k \<Longrightarrow> map_of (attrs m) k = None"
  by (auto simp: hasattr_def has_key_def split: option.splits)

lemma assign_declared_snoc:
  "assign_declared (decls @ [d]) kw m =
     setattr (assign_declared decls kw m) (name d)
       (case map_of kw (name d) of Some arg_value \<Rightarrow> arg_value | None \<Rightarrow> default_value d)"
  by (simp add: assign_declared_def)

lemma assign_declared_fixed [simp]:
  "fixed_attrs (assign_declared decls kw m) = fixed_attrs m"
  "obj_KWARGS (assign_declared decls kw m) = obj_KWARGS m"
  by (induction decls rule: rev_induct) (simp_all add: assign_declared_snoc, simp_all add: assign_declared_def)

lemma assign_declared_other:
  "n \<notin> name ` set decls \<Longrightarrow> map_of (attrs (assign_declared decls kw m)) n = map_of (attrs m) n"
  by (induction decls rule: rev_induct)
     (simp add: assign_declared_def, simp add: assign_declared_snoc update_conv')

lemma assign_declared_name:
  "d \<in> set decls \<Longrightarrow>
     (case map_of kw (name d) of
        Some v \<Rightarrow> map_of (attrs (assign_declared decls kw m)) (name d) = Some v
      | None \<Rightarrow> \<exists>d'\<in>set decls. name d' = name d \<and>
                  map_of (attrs (assign_declared decls kw m)) (name d) = Some (default_value d'))"
proof (induction decls rule: rev_induct)
  case Nil
  then show ?case by simp
next
  case (snoc x xs)
  show ?case
  proof (cases "name d = name x")
    case True
    then show ?thesis
      by (auto simp: assign_declared_snoc update_conv' split: option.splits)
  next
    case False
    with snoc.prems have "d \<in> set xs" by auto
    from snoc.IH[OF this] False show ?thesis
      by (auto simp: assign_declared_snoc update_conv' split: option.splits)
  qed
qed

lemma hasattr_assign_declared:
  "hasattr (assign_declared decls kw m) n = (n \<in> name ` set decls \<or> hasattr m n)"
  by (induction decls rule: rev_induct)
     (simp add: assign_declared_def, auto simp: assign_declared_snoc hasattr_setattr)

lemma attach_supplied_attrs:
  "map_of (attrs (attach_supplied kw m)) k =
     (if hasattr m k then map_of (attrs m) k else map_of kw k)"
proof (induction kw arbitrary: m)
  case Nil
  then show ?case by (simp add: attach_supplied_def not_hasattr_attrs)
next
  case (Cons item kw)
  obtain k0 v0 where item: "item = (k0, v0)" by (cases item)
  have step: "attach_supplied (item # kw) m =
                attach_supplied kw (if \<not> hasattr m k0 then setattr m k0 v0 else m)"
    by (simp add: attach_supplied_def item)
  show ?case
    unfolding step Cons.IH
    by (auto simp: item hasattr_setattr update_conv')
qed

text \<open>
  Claim C7, as amended. When the object has the attribute \<^verbatim>\<open>KWARGS\<close>, \<^verbatim>\<open>Modules.kwargs\<close>
  returns normally, and every name declared in \<^verbatim>\<open>KWARGS\<close> is an instance attribute that
  holds the supplied value, or a declared default of that name when none is supplied. A
  supplied keyword that is not declared is attached with its value only when the object
  does not have an attribute of that name already (the guard \<^verbatim>\<open>if not hasattr(module, k)\<close>
  of line 607); when it has, the instance dictionary is left as it was under that name.
\<close>

theorem kwargs_attributes:
  assumes "obj_KWARGS m = Some decls"
  shows "\<exists>m'. Modules_kwargs m kw = Inr m' \<and>
           (\<forall>d\<in>set decls.
              case map_of kw (name d) of
                Some v \<Rightarrow> map_of (attrs m') (name d) = Some v
              | None \<Rightarrow> \<exists>d'\<in>set decls. name d' = name d \<and>
                          map_of (attrs m') (name d) = Some (default_value d')) \<and>
           (\<forall>k v. map_of kw k = Some v \<and> k \<notin> name ` set decls \<longrightarrow>
              (if hasattr m k then map_of (attrs m') k = map_of (attrs m) k
               else map_of (attrs m') k = Some v))"
proof -
  let ?m1 = "assign_declared decls kw m"
  let ?m' = "attach_supplied kw ?m1"
  have run: "Modules_kwargs m kw = Inr ?m'"
    using assms by (simp add: Modules_kwargs_def)
  have decl: "\<forall>d\<in>set decls.
              case map_of kw (name d) of
                Some v \<Rightarrow> map_of (attrs ?m') (name d) = Some v
              | None \<Rightarrow> \<exists>d'\<in>set decls. name d' = name d \<and>
                          map_of (attrs ?m') (name d) = Some (default_value d')"
  proof
    fix d assume d: "d \<in> set decls"
    then have "hasattr ?m1 (name d)" by (simp add: hasattr_assign_declared)
    then have eq: "map_of (attrs ?m') (name d) = map_of (attrs ?m1) (name d)"
      by (simp add: attach_supplied_attrs)
    from assign_declared_name[OF d, of kw m]
    show "case map_of kw (name d) of
            Some v \<Rightarrow> map_of (attrs ?m') (name d) = Some v
          | None \<Rightarrow> \<exists>d'\<in>set decls. name d' = name d \<and>
                      map_of (attrs ?m') (name d) = Some (default_value d')"
      unfolding eq .
  qed
  have und: "\<forall>k v. map_of kw k = Some v \<and> k \<notin> name ` set decls \<longrightarrow>
              (if hasattr m k then map_of (attrs ?m') k = map_of (attrs m) k
               else map_of (attrs ?m') k = Some v)"
    by (simp add: attach_supplied_attrs hasattr_assign_declared assign_declared_other)
  from run decl und show ?thesis by blast
qed

text \<open>
  The theorem at a module that declares \<^verbatim>\<open>offset\<close> with default 0, constructed with the
  undeclared keyword \<^verbatim>\<open>extra\<close>.
\<close>

theorem kwargs_attributes_witness:
  "\<exists>m'. Modules_kwargs
           \<lparr>obj_KWARGS = Some [\<lparr>name = ''offset'', default_value = VInt 0\<rparr>],
            fixed_attrs = Module_attrs, attrs = []\<rparr>
           [(''extra'', VStr ''x'')] = Inr m' \<and>
        map_of (attrs m') ''offset'' = Some (VInt 0) \<and>
        map_of (attrs m') ''extra'' = Some (VStr ''x'')"
  using kwargs_attributes[where
      m = "\<lparr>obj_KWARGS = Some [\<lparr>name = ''offset'', default_value = VInt 0\<rparr>],
            fixed_attrs = Module_attrs, attrs = []\<rparr>"
      and decls = "[\<lparr>name = ''offset'', default_value = VInt 0\<rparr>]"
      and kw = "[(''extra'', VStr ''x'')]"]
  by (auto simp: hasattr_def has_key_def Module_attrs_def)

text \<open>
  Claim C7 as stated fails for a supplied keyword whose name the instance has already:
  \<^verbatim>\<open>Module.__init__\<close> sets \<^verbatim>\<open>self.status = None\<close> before it calls \<^verbatim>\<open>process_kwargs\<close>, so
  the undeclared keyword \<^verbatim>\<open>status\<close> is not attached and the object is left unchanged.
\<close>

theorem kwargs_existing_attribute_counterexample:
  "Modules_kwargs \<lparr>obj_KWARGS = Some [], fixed_attrs = Module_attrs, attrs = []\<rparr>
     [(''status'', VInt 5)]
   = Inr \<lparr>obj_KWARGS = Some [], fixed_attrs = Module_attrs, attrs = []\<rparr>"
  by (simp add: Modules_kwargs_def assign_declared_def attach_supplied_def hasattr_def
      Module_attrs_def)

section \<open>Properties of \<^verbatim>\<open>Module.__init__\<close> and \<^verbatim>\<open>Module.main\<close>\<close>

lemma call_raises:
  "f self (heap w) = (x, h) \<Longrightarrow>
   call f label self w = (x, w\<lparr>heap := h, trace := trace w @ [Called self label]\<rparr>)"
  by (simp add: call_def)


lemma failed_cases:
  "failed self e w =
     (if is_Exception e then (Inr (VBool False), Module_error self (Error_init e) w)
      else (Inl e, w))"
  by (cases e) (simp_all add: failed_def handlers_def)


lemma main_init_raises:
  assumes "init (class_of env w self) self (heap (set_status self st w)) = (Some e, h)"
  shows "Module_main env self st w =
           (if is_Exception e
            then (Inr (VBool False),
                  Module_error self (Error_init e)
                    ((set_status self st w)\<lparr>heap := h,
                       trace := trace (set_status self st w) @ [Called self ''init'']\<rparr>))
            else (Inl e, (set_status self st w)\<lparr>heap := h,
                       trace := trace (set_status self st w) @ [Called self ''init'']\<rparr>))"
  using assms by (simp add: Module_main_def call_raises failed_cases)


lemma trace_set_status [simp]: "trace (set_status self st w) = trace w"
  by (simp add: set_status_def)

lemma errors_Module_error:
  "errors (heap (Module_error self e w) self) = errors (heap w self) @ [e\<lparr>module := self\<rparr>]"
  by (simp add: Module_error_def)

lemma trace_Module_error [simp]: "trace (Module_error self e w) = trace w"
  by (simp add: Module_error_def)

text \<open>
  Claim C8, as amended. If \<^verbatim>\<open>init\<close> raises an exception that derives from \<^verbatim>\<open>Exception\<close>
  during \<^verbatim>\<open>Module.main\<close>, the exception is caught and recorded: \<^verbatim>\<open>main\<close> returns \<^verbatim>\<open>False\<close>,
  the Error that carries the exception is appended to the errors the module had when
  \<^verbatim>\<open>init\<close> raised, and \<^verbatim>\<open>init\<close> is the only hook that was called, so \<^verbatim>\<open>run\<close> was not.
\<close>

theorem main_init_failure:
  assumes "init (class_of env w self) self (heap (set_status self st w)) = (Some e, h)"
    and "is_Exception e"
  shows "fst (Module_main env self st w) = Inr (VBool False) \<and>
         errors (heap (snd (Module_main env self st w)) self)
           = errors (h self) @ [(Error_init e)\<lparr>module := self\<rparr>] \<and>
         trace (snd (Module_main env self st w)) = trace w @ [Called self ''init'']"
  using assms by (simp add: main_init_raises errors_Module_error)



lemmas module_defs =
  Module_init_def Module_main_def init_fields_def new_module_def process_kwargs_def
  Modules_kwargs_def assign_declared_def attach_supplied_def hasattr_def setattr_def
  call_def call_run_def handlers_def failed_def Module_error_def Error_init_def
  format_strings_def config_display_def Module_getattr_def set_status_def class_of_def
  Module_class_def Module_load_def Module_init_hook_def Module_run_def no_plugins_def
  raising_def has_key_def

text \<open>The theorem at a module whose \<^verbatim>\<open>init\<close> raises \<^verbatim>\<open>ValueError\<close>.\<close>

theorem main_init_failure_witness:
  "fst (Module_main (failing_env (ValueError ''bad offset'')) 0 \<lparr>completed = 0, total = 0\<rparr>
          (instance_world (failing_env (ValueError ''bad offset'')) ''InitFails''))
   = Inr (VBool False)"
  using main_init_failure[where env = "failing_env (ValueError ''bad offset'')" and self = 0
      and st = "\<lparr>completed = 0, total = 0\<rparr>"
      and w = "instance_world (failing_env (ValueError ''bad offset'')) ''InitFails''"
      and e = "ValueError ''bad offset''"
      and h = "heap (set_status 0 \<lparr>completed = 0, total = 0\<rparr>
                 (instance_world (failing_env (ValueError ''bad offset'')) ''InitFails''))"]
  by (simp add: failing_env_def instance_world_def module_defs)

text \<open>
  Claim C8 as stated fails for \<^verbatim>\<open>SystemExit\<close>, which is no cancellation and is not caught
  by \<^verbatim>\<open>except Exception\<close>: \<^verbatim>\<open>main\<close> does not return \<^verbatim>\<open>False\<close>, the exception leaves it, and
  nothing is recorded.
\<close>

theorem main_init_SystemExit_counterexample:
  "fst (Module_main (failing_env SystemExit) 0 \<lparr>completed = 0, total = 0\<rparr>
          (instance_world (failing_env SystemExit) ''InitFails'')) = Inl SystemExit \<and>
   errors (heap (snd (Module_main (failing_env SystemExit) 0 \<lparr>completed = 0, total = 0\<rparr>
          (instance_world (failing_env SystemExit) ''InitFails''))) 0) = []"
  by (simp add: failing_env_def instance_world_def module_defs)



end
